theory Spec2Isabelle
  imports Main
begin

section \<open>Python values, exceptions and the try statement\<close>

text \<open>
  The program is a thin layer over the yt-dlp library: it builds option dictionaries,
  calls the library, and turns what comes back (an info dictionary, or a raised
  exception) into tuples and dictionaries for the user interface. The values it touches
  are Python's dynamically typed ones, so they are modelled by one datatype. A
  dictionary is an association list; the first binding of a key is the dictionary's.
  A float is carried as a mantissa and an exponent; the program never computes with
  one.
  One \<open>char\<close> stands for one character of a Python string.
\<close>

datatype pyval =
    PNone
  | PBool bool
  | PInt int
  | PFloat int int
  | PStr string
  | PList "pyval list"
  | PDict "(string \<times> pyval) list"

type_synonym py_dict = "(string \<times> pyval) list"

text \<open>
  A raised exception is known by two things the program looks at: whether it is an
  instance of \<open>Exception\<close> (what \<open>except Exception\<close> tests; \<open>KeyboardInterrupt\<close>,
  \<open>SystemExit\<close> and \<open>GeneratorExit\<close> are not), and its text \<open>str(e)\<close>.
\<close>

datatype py_exc = PyExc (exc_is_Exception: bool) (exc_str: string)

definition quoted :: "string \<Rightarrow> string" where
  "quoted s = [CHR 0x27] @ s @ [CHR 0x27]"

definition KeyError :: "string \<Rightarrow> py_exc" where
  "KeyError k = PyExc True (quoted k)"

definition TypeError :: "string \<Rightarrow> py_exc" where
  "TypeError msg = PyExc True msg"

definition AttributeError :: "string \<Rightarrow> py_exc" where
  "AttributeError msg = PyExc True msg"

definition ValueError :: "string \<Rightarrow> py_exc" where
  "ValueError msg = PyExc True msg"

text \<open>
  A computation either raises (\<open>Inl\<close>) or yields a value (\<open>Inr\<close>); \<open>and_then\<close>
  sequences two of them, the first raise ending the sequence.
\<close>

definition and_then :: "py_exc + 'a \<Rightarrow> ('a \<Rightarrow> py_exc + 'b) \<Rightarrow> py_exc + 'b" where
  "and_then m f = (case m of Inl e \<Rightarrow> Inl e | Inr v \<Rightarrow> f v)"

text \<open>
  \<open>try: body except Exception as e: handler\<close>. An exception that is not an instance
  of \<open>Exception\<close> is not caught and leaves the function.
\<close>

definition try_except_Exception :: "py_exc + 'a \<Rightarrow> (py_exc \<Rightarrow> 'a) \<Rightarrow> py_exc + 'a" where
  "try_except_Exception body handler =
     (case body of
        Inr v \<Rightarrow> Inr v
      | Inl e \<Rightarrow> if exc_is_Exception e then Inr (handler e) else Inl e)"

subsection \<open>Built-in operations the program applies to values\<close>

fun py_type_name :: "pyval \<Rightarrow> string" where
  "py_type_name PNone = ''NoneType''"
| "py_type_name (PBool _) = ''bool''"
| "py_type_name (PInt _) = ''int''"
| "py_type_name (PFloat _ _) = ''float''"
| "py_type_name (PStr _) = ''str''"
| "py_type_name (PList _) = ''list''"
| "py_type_name (PDict _) = ''dict''"

text \<open>\<open>obj.get(key, default)\<close>: only a dictionary has the method.\<close>

fun py_get :: "pyval \<Rightarrow> string \<Rightarrow> pyval \<Rightarrow> py_exc + pyval" where
  "py_get (PDict d) k dflt = Inr (case map_of d k of Some v \<Rightarrow> v | None \<Rightarrow> dflt)"
| "py_get v k dflt =
     Inl (AttributeError (quoted (py_type_name v) @ '' object has no attribute '' @ quoted ''get''))"

text \<open>\<open>len(obj)\<close>.\<close>

fun py_len :: "pyval \<Rightarrow> py_exc + int" where
  "py_len (PStr s) = Inr (int (length s))"
| "py_len (PList xs) = Inr (int (length xs))"
| "py_len (PDict d) = Inr (int (length (remdups (map fst d))))"
| "py_len v = Inl (TypeError (''object of type '' @ quoted (py_type_name v) @ '' has no len()''))"

text \<open>
  Decimal digits of a natural number (\<open>digit_char\<close> is only applied to a number below
  ten), and \<open>str\<close> of an integer.
\<close>

definition digit_char :: "nat \<Rightarrow> char" where
  "digit_char d = ''0123456789'' ! d"

fun nat_digits :: "nat \<Rightarrow> string" where
  "nat_digits n = (if n < 10 then [digit_char n] else nat_digits (n div 10) @ [digit_char (n mod 10)])"

declare nat_digits.simps [simp del]

definition py_str_int :: "int \<Rightarrow> string" where
  "py_str_int i = (if i < 0 then CHR ''-'' # nat_digits (nat (- i)) else nat_digits (nat i))"

text \<open>
  \<open>format(i, '02d')\<close>: the decimal digits, padded with zeros on the left to a width of
  two, the sign counting towards the width.
\<close>

definition py_format_02d :: "int \<Rightarrow> string" where
  "py_format_02d i =
     (if i < 0 then CHR ''-'' # nat_digits (nat (- i))
      else if i < 10 then CHR ''0'' # nat_digits (nat i)
      else nat_digits (nat i))"

text \<open>
  The text an f-string puts for a value, \<open>format(v, '')\<close>. For a string it is the
  string, for \<open>None\<close>, a truth value and an integer the text below; the text of a
  float, a list or a dictionary is left to the parameter \<open>repr_other\<close>.
\<close>

fun py_format :: "(pyval \<Rightarrow> string) \<Rightarrow> pyval \<Rightarrow> string" where
  "py_format repr_other (PStr s) = s"
| "py_format repr_other PNone = ''None''"
| "py_format repr_other (PBool b) = (if b then ''True'' else ''False'')"
| "py_format repr_other (PInt i) = py_str_int i"
| "py_format repr_other v = repr_other v"

section \<open>Paths (pathlib, POSIX flavour)\<close>

text \<open>
  A pure path is its anchor (empty for a relative path, one slash, or two) and its
  parts. Parsing a string drops empty components and \<open>.\<close> components and keeps
  \<open>..\<close>; exactly two leading slashes are kept as an anchor of their own.
\<close>

record ppath =
  anchor :: string
  parts :: "string list"

fun split_on :: "char \<Rightarrow> string \<Rightarrow> string list" where
  "split_on c [] = [[]]"
| "split_on c (x # xs) =
     (if x = c then [] # split_on c xs
      else (case split_on c xs of w # ws \<Rightarrow> (x # w) # ws | [] \<Rightarrow> [[x]]))"

definition path_anchor :: "string \<Rightarrow> string" where
  "path_anchor s =
     (if take 1 s \<noteq> ''/'' then []
      else if take 1 (drop 1 s) \<noteq> ''/'' \<or> take 1 (drop 2 s) = ''/'' then ''/''
      else ''//'')"

definition Path :: "string \<Rightarrow> ppath" where
  "Path s = \<lparr>anchor = path_anchor s,
             parts = filter (\<lambda>c. c \<noteq> [] \<and> c \<noteq> ''.'') (split_on CHR ''/'' s)\<rparr>"

text \<open>\<open>p / s\<close>: an anchored right operand replaces the left one.\<close>

definition joinpath :: "ppath \<Rightarrow> string \<Rightarrow> ppath" where
  "joinpath p s =
     (let q = Path s
      in if anchor q \<noteq> [] then q else \<lparr>anchor = anchor p, parts = parts p @ parts q\<rparr>)"

fun join_with :: "string \<Rightarrow> string list \<Rightarrow> string" where
  "join_with sep [] = []"
| "join_with sep [x] = x"
| "join_with sep (x # y # ys) = x @ sep @ join_with sep (y # ys)"

definition path_str :: "ppath \<Rightarrow> string" where
  "path_str p =
     (if anchor p = [] \<and> parts p = [] then ''.'' else anchor p @ join_with ''/'' (parts p))"




section \<open>The yt-dlp library, as the program sees it\<close>

text \<open>
  \<open>yt_dlp.YoutubeDL(ydl_opts)\<close> takes the option dictionary and gives an object with
  the two methods the program calls. The library is a parameter of every operation:
  nothing is assumed of what it returns or raises. \<open>extract_info\<close> returns an info
  dictionary or \<open>None\<close> (it does so when told to ignore errors), and
  \<open>prepare_filename\<close> returns a string. Leaving the \<open>with\<close> block is taken not to
  raise, and the two \<open>print\<close> calls are left out.
\<close>

record youtube_dl =
  extract_info :: "string \<Rightarrow> bool \<Rightarrow> py_exc + py_dict option"
  prepare_filename :: "py_dict option \<Rightarrow> py_exc + string"

type_synonym yt_dlp = "py_dict \<Rightarrow> py_exc + youtube_dl"

definition info_val :: "py_dict option \<Rightarrow> pyval" where
  "info_val info = (case info of None \<Rightarrow> PNone | Some d \<Rightarrow> PDict d)"

text \<open>\<open>info[key]\<close> and \<open>key in info\<close>, for an info dictionary or \<open>None\<close>.\<close>

definition info_item :: "py_dict option \<Rightarrow> string \<Rightarrow> py_exc + pyval" where
  "info_item info k =
     (case info of
        None \<Rightarrow> Inl (TypeError (quoted ''NoneType'' @ '' object is not subscriptable''))
      | Some d \<Rightarrow> (case map_of d k of None \<Rightarrow> Inl (KeyError k) | Some v \<Rightarrow> Inr v))"

definition info_contains :: "string \<Rightarrow> py_dict option \<Rightarrow> py_exc + bool" where
  "info_contains k info =
     (case info of
        None \<Rightarrow> Inl (TypeError (''argument of type '' @ quoted ''NoneType'' @ '' is not iterable''))
      | Some d \<Rightarrow> Inr (map_of d k \<noteq> None))"

text \<open>\<open>p / v\<close> for a value: \<open>pathlib\<close> accepts a string only.\<close>

definition joinpath_val :: "ppath \<Rightarrow> pyval \<Rightarrow> py_exc + ppath" where
  "joinpath_val p v =
     (case v of
        PStr s \<Rightarrow> Inr (joinpath p s)
      | _ \<Rightarrow> Inl (TypeError (''unsupported operand type(s) for /: '' @ quoted ''PosixPath''
                  @ '' and '' @ quoted (py_type_name v))))"

text \<open>
  \<open>v[:n]\<close> and \<open>v + '...'\<close>. (Slicing a dictionary raises \<open>TypeError\<close> before Python 3.12
  and \<open>KeyError\<close> from then on; the program never tells the two apart.)
\<close>

fun py_slice_to :: "nat \<Rightarrow> pyval \<Rightarrow> py_exc + pyval" where
  "py_slice_to n (PStr s) = Inr (PStr (take n s))"
| "py_slice_to n (PList xs) = Inr (PList (take n xs))"
| "py_slice_to n (PDict d) = Inl (TypeError (''unhashable type: '' @ quoted ''slice''))"
| "py_slice_to n v = Inl (TypeError (quoted (py_type_name v) @ '' object is not subscriptable''))"

fun py_add_str :: "pyval \<Rightarrow> string \<Rightarrow> py_exc + pyval" where
  "py_add_str (PStr s) t = Inr (PStr (s @ t))"
| "py_add_str (PList xs) t =
     Inl (TypeError (''can only concatenate list (not '' @ [CHR 0x22] @ ''str'' @ [CHR 0x22] @ '') to list''))"
| "py_add_str v t =
     Inl (TypeError (''unsupported operand type(s) for +: '' @ quoted (py_type_name v)
            @ '' and '' @ quoted ''str''))"

text \<open>The items a \<open>for\<close> clause draws from a value.\<close>

fun py_iter :: "pyval \<Rightarrow> py_exc + pyval list" where
  "py_iter (PList xs) = Inr xs"
| "py_iter (PStr s) = Inr (map (\<lambda>c. PStr [c]) s)"
| "py_iter (PDict d) = Inr (map PStr (remdups (map fst d)))"
| "py_iter v = Inl (TypeError (quoted (py_type_name v) @ '' object is not iterable''))"

text \<open>A list comprehension whose element expression may raise.\<close>

fun comprehension :: "('a \<Rightarrow> py_exc + 'b) \<Rightarrow> 'a list \<Rightarrow> py_exc + 'b list" where
  "comprehension f [] = Inr []"
| "comprehension f (x # xs) =
     and_then (f x) (\<lambda>y. and_then (comprehension f xs) (\<lambda>ys. Inr (y # ys)))"

section \<open>The downloader\<close>

text \<open>
  The object holds the download directory as a path. The constructor also creates the
  directory on disk, an effect no operation below depends on; the progress hook is
  called by none of them. Neither is modelled.
\<close>

record YouTubeDownloader =
  download_path :: ppath

definition YouTubeDownloader_init :: "string \<Rightarrow> YouTubeDownloader" where
  "YouTubeDownloader_init download_path_arg = \<lparr>download_path = Path download_path_arg\<rparr>"

subsection \<open>\<open>download_video\<close>\<close>

definition download_video_opts :: "YouTubeDownloader \<Rightarrow> string \<Rightarrow> py_dict" where
  "download_video_opts self quality =
     [(''format'', PStr (if quality = ''best'' then ''bestvideo+bestaudio/best''
                         else ''bestvideo[height<='' @ butlast quality @ '']+bestaudio/best'')),
      (''outtmpl'', PStr (path_str (joinpath (download_path self) ''%(title)s.%(ext)s''))),
      (''merge_output_format'', PStr ''mp4'')]"

definition download_video ::
  "yt_dlp \<Rightarrow> YouTubeDownloader \<Rightarrow> string \<Rightarrow> string \<Rightarrow> py_exc + (bool \<times> pyval \<times> string option)" where
  "download_video lib self url quality =
     try_except_Exception
       (and_then (lib (download_video_opts self quality)) (\<lambda>ydl.
        and_then (extract_info ydl url True) (\<lambda>info.
        and_then (prepare_filename ydl info) (\<lambda>filename.
        and_then (info_item info ''title'') (\<lambda>title.
          Inr (True, title, Some filename))))))
       (\<lambda>e. (False, PStr (exc_str e), None))"

subsection \<open>\<open>download_audio\<close>\<close>

definition download_audio_opts :: "YouTubeDownloader \<Rightarrow> string \<Rightarrow> py_dict" where
  "download_audio_opts self format =
     [(''format'', PStr ''bestaudio/best''),
      (''outtmpl'', PStr (path_str (joinpath (download_path self) ''%(title)s.%(ext)s''))),
      (''postprocessors'', PList [PDict
         [(''key'', PStr ''FFmpegExtractAudio''),
          (''preferredcodec'', PStr format),
          (''preferredquality'', PStr ''192'')]])]"

definition download_audio ::
  "yt_dlp \<Rightarrow> (pyval \<Rightarrow> string) \<Rightarrow> YouTubeDownloader \<Rightarrow> string \<Rightarrow> string
     \<Rightarrow> py_exc + (bool \<times> pyval \<times> string option)" where
  "download_audio lib repr_other self url format =
     try_except_Exception
       (and_then (lib (download_audio_opts self format)) (\<lambda>ydl.
        and_then (extract_info ydl url True) (\<lambda>info.
        and_then (info_item info ''title'') (\<lambda>title.
          let filename = path_str (joinpath (download_path self)
                                     (py_format repr_other title @ ''.'' @ format))
          in Inr (True, title, Some filename)))))
       (\<lambda>e. (False, PStr (exc_str e), None))"

subsection \<open>\<open>download_playlist\<close>\<close>

definition download_playlist_opts ::
  "YouTubeDownloader \<Rightarrow> string \<Rightarrow> string \<Rightarrow> string \<Rightarrow> py_dict" where
  "download_playlist_opts self download_type quality audio_format =
     (if download_type = ''video'' then
        [(''format'', PStr (if quality = ''best'' then ''bestvideo+bestaudio/best''
                            else ''bestvideo[height<='' @ butlast quality @ '']+bestaudio/best'')),
         (''outtmpl'', PStr (path_str (joinpath (download_path self)
                               ''%(playlist)s/%(playlist_index)s - %(title)s.%(ext)s''))),
         (''merge_output_format'', PStr ''mp4''),
         (''ignoreerrors'', PBool True)]
      else
        [(''format'', PStr ''bestaudio/best''),
         (''outtmpl'', PStr (path_str (joinpath (download_path self)
                               ''%(playlist)s/%(playlist_index)s - %(title)s.%(ext)s''))),
         (''postprocessors'', PList [PDict
            [(''key'', PStr ''FFmpegExtractAudio''),
             (''preferredcodec'', PStr audio_format),
             (''preferredquality'', PStr ''192'')]]),
         (''ignoreerrors'', PBool True)])"

definition download_playlist ::
  "yt_dlp \<Rightarrow> YouTubeDownloader \<Rightarrow> string \<Rightarrow> string \<Rightarrow> string \<Rightarrow> string
     \<Rightarrow> py_exc + (bool \<times> pyval \<times> int \<times> string option)" where
  "download_playlist lib self url download_type quality audio_format =
     try_except_Exception
       (and_then (lib (download_playlist_opts self download_type quality audio_format)) (\<lambda>ydl.
        and_then (extract_info ydl url True) (\<lambda>info.
        and_then (py_get (info_val info) ''title'' (PStr ''playlist'')) (\<lambda>playlist_title.
        and_then (py_get (info_val info) ''entries'' (PList [])) (\<lambda>entries.
        and_then (py_len entries) (\<lambda>video_count.
        and_then (joinpath_val (download_path self) playlist_title) (\<lambda>playlist_folder.
          Inr (True, playlist_title, video_count, Some (path_str playlist_folder)))))))))
       (\<lambda>e. (False, PStr (exc_str e), 0, None))"

subsection \<open>\<open>get_video_info\<close>\<close>

text \<open>
  Lines 102, 103 and 107 of the source: \<open>d // 60\<close>, \<open>d % 60\<close> and the f-string
  \<open>f"{duration_min}:{duration_sec:02d}"\<close>, for the value \<open>d\<close> found under
  \<open>duration\<close>. A truth value counts as the integer 0 or 1. A float passes both
  divisions and is refused by the format code \<open>d\<close>; anything else is refused by \<open>//\<close>.
\<close>

fun format_duration :: "pyval \<Rightarrow> py_exc + string" where
  "format_duration (PInt d) = Inr (py_str_int (d div 60) @ '':'' @ py_format_02d (d mod 60))"
| "format_duration (PBool b) =
     Inr (py_str_int (of_bool b div 60) @ '':'' @ py_format_02d (of_bool b mod 60))"
| "format_duration (PFloat m e) =
     Inl (ValueError (''Unknown format code '' @ quoted ''d'' @ '' for object of type '' @ quoted ''float''))"
| "format_duration v =
     Inl (TypeError (''unsupported operand type(s) for //: '' @ quoted (py_type_name v)
            @ '' and '' @ quoted ''int''))"

text \<open>
  Lines 111 and 112: \<open>x[:300] + '...' if len(x) > 300 else x\<close>, the conditional
  expression binding weakest.
\<close>

definition truncate_description :: "pyval \<Rightarrow> py_exc + pyval" where
  "truncate_description x =
     and_then (py_len x) (\<lambda>n.
       if n > 300 then and_then (py_slice_to 300 x) (\<lambda>y. py_add_str y ''...'')
       else Inr x)"

definition get_video_info ::
  "yt_dlp \<Rightarrow> YouTubeDownloader \<Rightarrow> string \<Rightarrow> py_exc + py_dict option" where
  "get_video_info lib self url =
     try_except_Exception
       (and_then (lib [(''quiet'', PBool True)]) (\<lambda>ydl.
        and_then (extract_info ydl url False) (\<lambda>info.
        and_then (py_get (info_val info) ''duration'' (PInt 0)) (\<lambda>d.
        and_then (format_duration d) (\<lambda>duration.
        and_then (py_get (info_val info) ''title'' PNone) (\<lambda>title.
        and_then (py_get (info_val info) ''uploader'' PNone) (\<lambda>uploader.
        and_then (py_get (info_val info) ''view_count'' (PInt 0)) (\<lambda>views.
        and_then (py_get (info_val info) ''thumbnail'' PNone) (\<lambda>thumbnail.
        and_then (py_get (info_val info) ''description'' (PStr [])) (\<lambda>x.
        and_then (truncate_description x) (\<lambda>description.
          Inr (Some [(''title'', title),
                     (''duration'', PStr duration),
                     (''uploader'', uploader),
                     (''views'', views),
                     (''thumbnail'', thumbnail),
                     (''description'', description)]))))))))))))
       (\<lambda>e. None)"

subsection \<open>\<open>get_playlist_info\<close>\<close>

definition get_playlist_info ::
  "yt_dlp \<Rightarrow> YouTubeDownloader \<Rightarrow> string \<Rightarrow> py_exc + py_dict option" where
  "get_playlist_info lib self url =
     try_except_Exception
       (and_then (lib [(''quiet'', PBool True), (''extract_flat'', PBool True)]) (\<lambda>ydl.
        and_then (extract_info ydl url False) (\<lambda>info.
        and_then (info_contains ''entries'' info) (\<lambda>has_entries.
          if has_entries then
            and_then (py_get (info_val info) ''title'' PNone) (\<lambda>title.
            and_then (py_get (info_val info) ''uploader'' PNone) (\<lambda>uploader.
            and_then (info_item info ''entries'') (\<lambda>entries.
            and_then (py_len entries) (\<lambda>video_count.
            and_then (py_slice_to 10 entries) (\<lambda>first_entries.
            and_then (py_iter first_entries) (\<lambda>items.
            and_then (comprehension (\<lambda>entry.
                        and_then (py_get entry ''title'' PNone) (\<lambda>t.
                        and_then (py_get entry ''duration'' PNone) (\<lambda>d.
                          Inr (PDict [(''title'', t), (''duration'', d)])))) items) (\<lambda>videos.
              Inr (Some [(''title'', title),
                         (''uploader'', uploader),
                         (''video_count'', PInt video_count),
                         (''videos'', PList videos)]))))))))
          else Inr None))))
       (\<lambda>e. None)"

section \<open>The archive builder, \<open>create_zip\<close>\<close>

subsection \<open>The file system\<close>














subsection \<open>Opening the archive\<close>



subsection \<open>Walking the folder and writing the entries\<close>





record zip_entry =
  filename :: ppath
  arcname :: ppath



section \<open>Notions used to state the properties\<close>

text \<open>Reading decimal digits back into a number.\<close>

definition digit_value :: "char \<Rightarrow> nat" where
  "digit_value c = of_char c - 48"

definition digits_value :: "string \<Rightarrow> nat" where
  "digits_value s = foldl (\<lambda>a c. 10 * a + digit_value c) 0 s"

text \<open>
  The value under a key of the dictionary an operation returned; there is none when
  the operation returned \<open>None\<close> or let an exception through.
\<close>

definition result_field :: "py_exc + py_dict option \<Rightarrow> string \<Rightarrow> pyval option" where
  "result_field r k = (case r of Inr (Some d) \<Rightarrow> map_of d k | _ \<Rightarrow> None)"

subsection \<open>Stand-ins for the library\<close>

text \<open>
  A library object that answers every \<open>extract_info\<close> call with the same outcome and
  names every file \<open>downloads/clip.mp4\<close>.
\<close>

definition fixed_ydl :: "py_exc + py_dict option \<Rightarrow> youtube_dl" where
  "fixed_ydl outcome =
     \<lparr>extract_info = (\<lambda>url download. outcome),
      prepare_filename = (\<lambda>info. Inr ''downloads/clip.mp4'')\<rparr>"

definition fixed_lib :: "py_exc + py_dict option \<Rightarrow> yt_dlp" where
  "fixed_lib outcome = (\<lambda>ydl_opts. Inr (fixed_ydl outcome))"

text \<open>
  A library that refuses every option dictionary, naming in its error the format
  expression it was given.
\<close>

definition format_probe :: yt_dlp where
  "format_probe ydl_opts =
     Inl (PyExc True (case map_of ydl_opts ''format'' of Some (PStr f) \<Rightarrow> f | _ \<Rightarrow> []))"

text \<open>
  The downloader as created with the default directory, and a stand-in for the text
  of floats, lists and dictionaries, on which no property below depends.
\<close>

definition default_downloader :: YouTubeDownloader where
  "default_downloader = YouTubeDownloader_init ''downloads''"

definition no_repr :: "pyval \<Rightarrow> string" where
  "no_repr v = []"

text \<open>
  The number of items in the preview list of a returned dictionary, and the preview
  item made from one entry that is a dictionary.
\<close>

definition preview_length :: "py_exc + py_dict option \<Rightarrow> nat option" where
  "preview_length r =
     (case result_field r ''videos'' of Some (PList videos) \<Rightarrow> Some (length videos) | _ \<Rightarrow> None)"

definition preview_item :: "pyval \<Rightarrow> pyval" where
  "preview_item entry =
     (case entry of
        PDict e \<Rightarrow> PDict [(''title'', case map_of e ''title'' of Some v \<Rightarrow> v | None \<Rightarrow> PNone),
                          (''duration'', case map_of e ''duration'' of Some v \<Rightarrow> v | None \<Rightarrow> PNone)]
      | _ \<Rightarrow> PNone)"

subsection \<open>What lies under a directory\<close>
















subsection \<open>Example file systems\<close>








section \<open>Properties\<close>

subsection \<open>Sequencing and the handler\<close>

lemma and_then_Inr [simp]: "and_then (Inr v) f = f v"
  by (simp add: and_then_def)

lemma and_then_Inl [simp]: "and_then (Inl e) f = Inl e"
  by (simp add: and_then_def)

lemma try_except_Inr [simp]: "try_except_Exception (Inr v) h = Inr v"
  by (simp add: try_except_Exception_def)

lemma try_except_Inl [simp]:
  "try_except_Exception (Inl e) h = (if exc_is_Exception e then Inr (h e) else Inl e)"
  by (simp add: try_except_Exception_def)

lemma py_get_info_Some [simp]:
  "py_get (info_val (Some d)) k dflt = Inr (case map_of d k of Some v \<Rightarrow> v | None \<Rightarrow> dflt)"
  by (simp add: info_val_def)

lemma extract_info_fixed [simp]: "extract_info (fixed_ydl outcome) url download = outcome"
  by (simp add: fixed_ydl_def)

lemma prepare_filename_fixed [simp]:
  "prepare_filename (fixed_ydl outcome) info = Inr ''downloads/clip.mp4''"
  by (simp add: fixed_ydl_def)

lemma Path_downloads: "Path ''downloads'' = \<lparr>anchor = [], parts = [''downloads'']\<rparr>"
  by (simp add: Path_def path_anchor_def)

subsection \<open>Decimal digits\<close>

text \<open>
  \<open>nat_digits\<close> writes a number in base ten: reading the digits back gives the
  number.
\<close>

lemma digit_value_digit_char: "d < 10 \<Longrightarrow> digit_value (digit_char d) = d"
proof -
  assume "d < 10"
  then have "d \<in> {0, 1, 2, 3, 4, 5, 6, 7, 8, 9}" by auto
  then show ?thesis by (auto simp: digit_char_def digit_value_def)
qed

lemma digits_value_nat_digits: "digits_value (nat_digits n) = n"
proof (induction n rule: nat_digits.induct)
  case (1 n)
  show ?case
  proof (cases "n < 10")
    case True
    then show ?thesis
      by (simp add: nat_digits.simps[of n] digits_value_def digit_value_digit_char)
  next
    case False
    with 1 have "digits_value (nat_digits (n div 10)) = n div 10" by simp
    with False show ?thesis
      by (simp add: nat_digits.simps[of n] digits_value_def digit_value_digit_char)
  qed
qed

lemma digit_char_0: "digit_char 0 = CHR ''0''"
  by (simp add: digit_char_def)

lemma py_format_02d_two_digits:
  assumes "n < 100"
  shows "py_format_02d (int n) = [digit_char (n div 10), digit_char (n mod 10)]"
proof (cases "n < 10")
  case True
  then show ?thesis
    by (simp add: py_format_02d_def nat_digits.simps[of n] digit_char_0)
next
  case False
  with assms have "n div 10 < 10" by simp
  with False show ?thesis
    by (simp add: py_format_02d_def nat_digits.simps[of n] nat_digits.simps[of "n div 10"])
qed

lemma format_duration_nat:
  "format_duration (PInt (int S)) =
     Inr (nat_digits (S div 60) @ '':'' @ [digit_char (S mod 60 div 10), digit_char (S mod 60 mod 10)])"
proof -
  have m: "int S mod 60 = int (S mod 60)" by (simp add: zmod_int)
  have d: "int S div 60 = int (S div 60)" by (simp add: zdiv_int)
  have "S mod 60 < 100" by (rule less_trans[of _ 60]) simp_all
  then show ?thesis
    unfolding format_duration.simps m d
    by (simp add: py_format_02d_two_digits py_str_int_def)
qed


subsection \<open>List comprehensions\<close>

lemma comprehension_map:
  "(\<forall>x \<in> set xs. f x = Inr (g x)) \<Longrightarrow> comprehension f xs = Inr (map g xs)"
  by (induction xs) simp_all

subsection \<open>Places and path resolution\<close>











subsection \<open>Walking a directory tree\<close>










subsection \<open>Counting\<close>






subsection \<open>Joining paths\<close>

lemma split_on_no_sep: "c \<notin> set s \<Longrightarrow> split_on c s = [s]"
  by (induction s) auto

lemma path_anchor_relative: "take 1 s \<noteq> ''/'' \<Longrightarrow> path_anchor s = []"
  by (simp add: path_anchor_def)

lemma anchor_Path_relative: "take 1 s \<noteq> ''/'' \<Longrightarrow> anchor (Path s) = []"
  by (simp add: Path_def path_anchor_relative)

lemma joinpath_relative:
  "take 1 s \<noteq> ''/'' \<Longrightarrow> joinpath p s = \<lparr>anchor = anchor p, parts = parts p @ parts (Path s)\<rparr>"
  by (simp add: joinpath_def Let_def anchor_Path_relative)

lemma Path_plain_name:
  assumes "CHR ''/'' \<notin> set s" and "s \<noteq> []" and "s \<noteq> ''.''"
  shows "Path s = \<lparr>anchor = [], parts = [s]\<rparr>"
proof -
  from assms(1,2) have "take 1 s \<noteq> ''/''" by (cases s) auto
  with assms show ?thesis
    by (simp add: Path_def path_anchor_relative split_on_no_sep)
qed

lemma join_with_snoc: "ps \<noteq> [] \<Longrightarrow> join_with sep (ps @ [x]) = join_with sep ps @ sep @ x"
  by (induction sep ps rule: join_with.induct) auto

subsection \<open>The preview list\<close>

lemma comprehension_length:
  "comprehension f xs = Inr ys \<Longrightarrow> length ys = length xs"
proof (induction xs arbitrary: ys)
  case Nil
  then show ?case by simp
next
  case (Cons x xs)
  then show ?case
    by (auto simp: and_then_def split: sum.splits)
qed

lemma preview_of_entries:
  assumes "and_then (py_len entries) (\<lambda>video_count.
            and_then (py_slice_to 10 entries) (\<lambda>first_entries.
            and_then (py_iter first_entries) (\<lambda>items.
            and_then (comprehension f items) (\<lambda>videos. Inr (h video_count videos))))) = Inr r"
    and "\<And>s. \<exists>e. f (PStr s) = Inl e"
  shows "\<exists>k vs. r = h k vs \<and> int (length vs) = min 10 k"
proof (cases entries)
  case (PStr s)
  show ?thesis
  proof (cases "take 10 s")
    case Nil
    with PStr assms(1) show ?thesis
      by (cases s) (auto simp: and_then_def intro!: exI[of _ 0] exI[of _ "[]"])
  next
    case (Cons c cs)
    from assms(2) obtain e where "f (PStr [c]) = Inl e" by blast
    with Cons PStr assms(1) show ?thesis by (simp add: and_then_def)
  qed
next
  case (PList es)
  with assms(1) obtain videos where v: "comprehension f (take 10 es) = Inr videos"
      "r = h (int (length es)) videos"
    by (auto simp: and_then_def split: sum.splits)
  from comprehension_length[OF v(1)] v(2) show ?thesis
    by (auto simp: min_def intro!: exI[of _ "int (length es)"] exI[of _ videos])
qed (use assms(1) in \<open>simp_all add: and_then_def\<close>)

text \<open>
  Whenever \<open>get_playlist_info\<close> returns a dictionary at all, whatever the library
  returned, its preview list has the smaller of 10 and \<open>video_count\<close> as its length.
\<close>

lemma try_except_Some:
  "try_except_Exception body (\<lambda>e. None) = Inr (Some r) \<longleftrightarrow> body = Inr (Some r)"
  by (cases body) (auto split: if_splits)

lemma playlist_preview_never_longer:
  assumes "preview_length (get_playlist_info lib self url) = Some n"
  shows "\<exists>k. result_field (get_playlist_info lib self url) ''video_count'' = Some (PInt k)
             \<and> int n = min 10 k"
proof -
  let ?f = "\<lambda>entry. and_then (py_get entry ''title'' PNone) (\<lambda>t.
                     and_then (py_get entry ''duration'' PNone) (\<lambda>d.
                       Inr (PDict [(''title'', t), (''duration'', d)])))"
  from assms obtain r where r: "get_playlist_info lib self url = Inr (Some r)"
    by (auto simp: preview_length_def result_field_def split: sum.splits option.splits)
  then obtain ydl where ydl: "lib [(''quiet'', PBool True), (''extract_flat'', PBool True)] = Inr ydl"
    by (cases "lib [(''quiet'', PBool True), (''extract_flat'', PBool True)]")
       (auto simp: get_playlist_info_def split: if_splits)
  from r ydl obtain d where d: "extract_info ydl url False = Inr (Some d)"
    by (cases "extract_info ydl url False")
       (auto simp: get_playlist_info_def info_contains_def split: if_splits option.splits)
  from r ydl d obtain entries where e: "map_of d ''entries'' = Some entries"
    by (cases "map_of d ''entries''") (auto simp: get_playlist_info_def info_contains_def)
  let ?h = "\<lambda>video_count videos.
      Some [(''title'', case map_of d ''title'' of Some v \<Rightarrow> v | None \<Rightarrow> PNone),
            (''uploader'', case map_of d ''uploader'' of Some v \<Rightarrow> v | None \<Rightarrow> PNone),
            (''video_count'', PInt video_count),
            (''videos'', PList videos)]"
  from r ydl d e have
    "and_then (py_len entries) (\<lambda>video_count.
       and_then (py_slice_to 10 entries) (\<lambda>first_entries.
       and_then (py_iter first_entries) (\<lambda>items.
       and_then (comprehension ?f items) (\<lambda>videos. Inr (?h video_count videos))))) = Inr (Some r)"
    by (simp add: get_playlist_info_def info_contains_def info_item_def try_except_Some
             del: try_except_Inl try_except_Inr)
  moreover have "\<And>s. \<exists>e. ?f (PStr s) = Inl e" by simp
  ultimately obtain k vs where "Some r = ?h k vs" "int (length vs) = min 10 k"
    using preview_of_entries[where f = ?f and h = ?h] by blast
  with r assms show ?thesis
    by (auto simp: preview_length_def result_field_def)
qed

subsection \<open>What \<open>get_video_info\<close> returns\<close>

text \<open>
  Every exception raised while the duration and the description are worked out is an
  instance of \<open>Exception\<close>. So whenever \<open>get_video_info\<close> returns a dictionary,
  both steps succeeded and the dictionary holds their results; in particular the
  duration and the description are as C4 and C5 say, whatever else the info
  dictionary holds.
\<close>

lemma format_duration_Exception: "format_duration v = Inl e \<Longrightarrow> exc_is_Exception e"
  by (cases v) (auto simp: ValueError_def TypeError_def)

lemma truncate_description_Exception: "truncate_description x = Inl e \<Longrightarrow> exc_is_Exception e"
  by (cases x) (auto simp: truncate_description_def TypeError_def split: if_splits)

lemma video_info_result:
  assumes "lib [(''quiet'', PBool True)] = Inr ydl"
    and "extract_info ydl url False = Inr (Some d)"
    and "get_video_info lib self url = Inr (Some r)"
  shows "\<exists>t y. format_duration (case map_of d ''duration'' of None \<Rightarrow> PInt 0 | Some v \<Rightarrow> v) = Inr t
           \<and> truncate_description (case map_of d ''description'' of None \<Rightarrow> PStr [] | Some v \<Rightarrow> v) = Inr y
           \<and> map_of r ''duration'' = Some (PStr t)
           \<and> map_of r ''description'' = Some y"
proof -
  let ?dv = "case map_of d ''duration'' of None \<Rightarrow> PInt 0 | Some v \<Rightarrow> v"
  let ?xv = "case map_of d ''description'' of None \<Rightarrow> PStr [] | Some v \<Rightarrow> v"
  obtain t where t: "format_duration ?dv = Inr t"
  proof (cases "format_duration ?dv")
    case (Inl e)
    with assms format_duration_Exception[OF Inl] show ?thesis
      by (simp add: get_video_info_def)
  qed blast
  obtain y where y: "truncate_description ?xv = Inr y"
  proof (cases "truncate_description ?xv")
    case (Inl e)
    with assms t truncate_description_Exception[OF Inl] show ?thesis
      by (simp add: get_video_info_def)
  qed blast
  from assms t y show ?thesis
    by (auto simp add: get_video_info_def)
qed

lemma duration_of_any_result:
  assumes "lib [(''quiet'', PBool True)] = Inr ydl"
    and "extract_info ydl url False = Inr (Some d)"
    and "map_of d ''duration'' = Some (PInt (int S))"
    and "get_video_info lib self url = Inr (Some r)"
  shows "map_of r ''duration'' =
           Some (PStr (nat_digits (S div 60) @ '':'' @
                       [digit_char (S mod 60 div 10), digit_char (S mod 60 mod 10)]))"
  using video_info_result[OF assms(1,2,4)] assms(3) format_duration_nat[of S]
  by (auto simp del: format_duration.simps)

lemma description_of_any_result:
  assumes "lib [(''quiet'', PBool True)] = Inr ydl"
    and "extract_info ydl url False = Inr (Some d)"
    and "map_of d ''description'' = Some (PStr s)"
    and "get_video_info lib self url = Inr (Some r)"
  shows "map_of r ''description'' = Some (PStr (if length s \<le> 300 then s else take 300 s @ ''...''))"
  using video_info_result[OF assms(1,2,4)] assms(3)
  by (auto simp: truncate_description_def split: if_splits)

section \<open>The claims\<close>

subsection \<open>Quality selector\<close>

text \<open>
  C3. The quality selector is translated the same way by \<open>download_video\<close> and by
  \<open>download_playlist\<close> (for videos): \<open>best\<close> gives the unrestricted expression
  \<open>bestvideo+bestaudio/best\<close>, and a selector made of a prefix followed by the letter
  \<open>p\<close>, such as \<open>720p\<close>, gives the expression that bounds the height by that prefix
  and falls back to the best combined stream. This holds for every prefix, digits or
  not. The dictionary with this entry is what each operation hands to the library.
\<close>

theorem quality_selector_translation:
  "map_of (download_video_opts self ''best'') ''format'' = Some (PStr ''bestvideo+bestaudio/best'')
   \<and> map_of (download_playlist_opts self ''video'' ''best'' audio_format) ''format''
       = Some (PStr ''bestvideo+bestaudio/best'')
   \<and> map_of (download_video_opts self (digits @ ''p'')) ''format''
       = Some (PStr (''bestvideo[height<='' @ digits @ '']+bestaudio/best''))
   \<and> map_of (download_playlist_opts self ''video'' (digits @ ''p'') audio_format) ''format''
       = Some (PStr (''bestvideo[height<='' @ digits @ '']+bestaudio/best''))"
proof -
  have "digits @ ''p'' \<noteq> ''best''"
  proof
    assume "digits @ ''p'' = ''best''"
    then have "last (digits @ ''p'') = last ''best''" by simp
    then show False by simp
  qed
  then show ?thesis
    by (simp add: download_video_opts_def download_playlist_opts_def)
qed

theorem quality_selector_translation_witness:
  "map_of (download_video_opts default_downloader ''720p'') ''format''
     = Some (PStr ''bestvideo[height<=720]+bestaudio/best'')
   \<and> map_of (download_playlist_opts default_downloader ''video'' ''1080p'' ''mp3'') ''format''
     = Some (PStr ''bestvideo[height<=1080]+bestaudio/best'')
   \<and> download_video format_probe default_downloader ''u'' ''720p''
     = Inr (False, PStr ''bestvideo[height<=720]+bestaudio/best'', None)
   \<and> download_playlist format_probe default_downloader ''u'' ''video'' ''1080p'' ''mp3''
     = Inr (False, PStr ''bestvideo[height<=1080]+bestaudio/best'', 0, None)"
proof -
  have "download_video format_probe default_downloader ''u'' ''720p''
          = Inr (False, PStr ''bestvideo[height<=720]+bestaudio/best'', None)"
    and "download_playlist format_probe default_downloader ''u'' ''video'' ''1080p'' ''mp3''
          = Inr (False, PStr ''bestvideo[height<=1080]+bestaudio/best'', 0, None)"
    by code_simp+
  then show ?thesis
    using quality_selector_translation [of default_downloader "''mp3''" "''720''"]
      quality_selector_translation [of default_downloader "''mp3''" "''1080''"]
    by simp
qed

subsection \<open>Duration and description in \<open>get_video_info\<close>\<close>

text \<open>
  C4. When the metadata query returns an info dictionary whose duration is a
  non-negative integer \<open>S\<close> (and whose description, if any, is a string), the
  dictionary \<open>get_video_info\<close> returns has under \<open>duration\<close> the decimal digits of
  \<open>S div 60\<close>, a colon, and the two decimal digits of \<open>S mod 60\<close>: 125 gives
  \<open>2:05\<close>, 59 gives \<open>0:59\<close> and 0 gives \<open>0:00\<close>. (Any dictionary returned for such
  an info dictionary has this duration: lemma \<open>duration_of_any_result\<close>.)
\<close>

theorem duration_formatting:
  assumes "lib [(''quiet'', PBool True)] = Inr ydl"
    and "extract_info ydl url False = Inr (Some d)"
    and "map_of d ''duration'' = Some (PInt (int S))"
    and "(case map_of d ''description'' of None \<Rightarrow> PStr [] | Some v \<Rightarrow> v) = PStr s"
  shows "result_field (get_video_info lib self url) ''duration'' =
           Some (PStr (nat_digits (S div 60) @ '':'' @
                       [digit_char (S mod 60 div 10), digit_char (S mod 60 mod 10)]))"
  using assms format_duration_nat [of S]
  by (simp add: get_video_info_def result_field_def truncate_description_def
           del: format_duration.simps)

theorem duration_formatting_witness:
  "result_field (get_video_info (fixed_lib (Inr (Some [(''duration'', PInt 125)])))
                   default_downloader ''u'') ''duration'' = Some (PStr ''2:05'')
   \<and> result_field (get_video_info (fixed_lib (Inr (Some [(''duration'', PInt 59)])))
                   default_downloader ''u'') ''duration'' = Some (PStr ''0:59'')
   \<and> result_field (get_video_info (fixed_lib (Inr (Some [(''duration'', PInt 0)])))
                   default_downloader ''u'') ''duration'' = Some (PStr ''0:00'')"
  using
    duration_formatting [of "fixed_lib (Inr (Some [(''duration'', PInt 125)]))"
      "fixed_ydl (Inr (Some [(''duration'', PInt 125)]))" "''u''"
      "[(''duration'', PInt 125)]" 125 "[]" default_downloader]
    duration_formatting [of "fixed_lib (Inr (Some [(''duration'', PInt 59)]))"
      "fixed_ydl (Inr (Some [(''duration'', PInt 59)]))" "''u''"
      "[(''duration'', PInt 59)]" 59 "[]" default_downloader]
    duration_formatting [of "fixed_lib (Inr (Some [(''duration'', PInt 0)]))"
      "fixed_ydl (Inr (Some [(''duration'', PInt 0)]))" "''u''"
      "[(''duration'', PInt 0)]" 0 "[]" default_downloader]
  by (simp add: fixed_lib_def nat_digits.simps digit_char_def)

text \<open>
  C5. When the metadata query returns an info dictionary whose description is a string
  (and whose duration, if any, is an integer), the dictionary \<open>get_video_info\<close> returns
  has under \<open>description\<close> the string itself when it has at most 300 characters, 300
  included, and otherwise its first 300 characters followed by three dots. (Any
  dictionary returned for such an info dictionary has this description: lemma
  \<open>description_of_any_result\<close>.)
\<close>

theorem description_truncation:
  assumes "lib [(''quiet'', PBool True)] = Inr ydl"
    and "extract_info ydl url False = Inr (Some d)"
    and "map_of d ''description'' = Some (PStr s)"
    and "(case map_of d ''duration'' of None \<Rightarrow> PInt 0 | Some v \<Rightarrow> v) = PInt n"
  shows "result_field (get_video_info lib self url) ''description'' =
           Some (PStr (if length s \<le> 300 then s else take 300 s @ ''...''))"
  using assms
  by (simp add: get_video_info_def result_field_def truncate_description_def)

theorem description_truncation_witness:
  "result_field (get_video_info
      (fixed_lib (Inr (Some [(''description'', PStr (replicate 300 CHR ''a''))])))
      default_downloader ''u'') ''description'' = Some (PStr (replicate 300 CHR ''a''))
   \<and> result_field (get_video_info
      (fixed_lib (Inr (Some [(''description'', PStr (replicate 301 CHR ''a''))])))
      default_downloader ''u'') ''description'' = Some (PStr (replicate 300 CHR ''a'' @ ''...''))"
  using
    description_truncation [of "fixed_lib (Inr (Some [(''description'', PStr (replicate 300 CHR ''a''))]))"
      "fixed_ydl (Inr (Some [(''description'', PStr (replicate 300 CHR ''a''))]))" "''u''"
      "[(''description'', PStr (replicate 300 CHR ''a''))]" "replicate 300 CHR ''a''" 0
      default_downloader]
    description_truncation [of "fixed_lib (Inr (Some [(''description'', PStr (replicate 301 CHR ''a''))]))"
      "fixed_ydl (Inr (Some [(''description'', PStr (replicate 301 CHR ''a''))]))" "''u''"
      "[(''description'', PStr (replicate 301 CHR ''a''))]" "replicate 301 CHR ''a''" 0
      default_downloader]
  by (simp add: fixed_lib_def)

subsection \<open>Failures of the library\<close>

text \<open>
  C2, as amended. When the library raises an exception that is an instance of
  \<open>Exception\<close> (on creating the library object, in \<open>extract_info\<close>, or for
  \<open>download_video\<close> in \<open>prepare_filename\<close>), \<open>download_video\<close> and \<open>download_audio\<close>
  each catch it and return the triple of \<open>False\<close>, the exception's text \<open>str(e)\<close> and
  \<open>None\<close>; the exception does not leave the function. The message is the text as it
  is, so it is empty when the text is.
\<close>

theorem download_failure_reported:
  assumes "exc_is_Exception e"
  shows "(lib (download_video_opts self quality) = Inl e
          \<or> (lib (download_video_opts self quality) = Inr ydl \<and> extract_info ydl url True = Inl e)
          \<or> (lib (download_video_opts self quality) = Inr ydl \<and> extract_info ydl url True = Inr info
               \<and> prepare_filename ydl info = Inl e)
          \<longrightarrow> download_video lib self url quality = Inr (False, PStr (exc_str e), None))
       \<and> (lib (download_audio_opts self format) = Inl e
          \<or> (lib (download_audio_opts self format) = Inr ydl' \<and> extract_info ydl' url True = Inl e)
          \<longrightarrow> download_audio lib repr_other self url format = Inr (False, PStr (exc_str e), None))"
  using assms by (auto simp add: download_video_def download_audio_def)

theorem download_failure_reported_witness:
  "exc_is_Exception (PyExc True ''Video unavailable'')
   \<and> download_video (fixed_lib (Inl (PyExc True ''Video unavailable''))) default_downloader
        ''u'' ''best'' = Inr (False, PStr ''Video unavailable'', None)
   \<and> download_audio (fixed_lib (Inl (PyExc True ''Video unavailable''))) no_repr default_downloader
        ''u'' ''mp3'' = Inr (False, PStr ''Video unavailable'', None)"
  using download_failure_reported
    [where e = "PyExc True ''Video unavailable''"
       and lib = "fixed_lib (Inl (PyExc True ''Video unavailable''))"
       and self = default_downloader and quality = "''best''" and format = "''mp3''"
       and ydl = "fixed_ydl (Inl (PyExc True ''Video unavailable''))"
       and ydl' = "fixed_ydl (Inl (PyExc True ''Video unavailable''))"
       and url = "''u''" and repr_other = no_repr]
  by (simp add: fixed_lib_def)

text \<open>
  C2 as stated asks for a non-empty message and lets no fault through. An exception
  whose text is empty, as one raised without arguments has, is reported with the empty
  message; and one that is not an instance of \<open>Exception\<close>, such as a keyboard
  interrupt arriving during the download, passes the handler and reaches the caller.
\<close>

theorem download_failure_empty_message:
  "download_video (fixed_lib (Inl (PyExc True []))) default_downloader ''u'' ''best''
     = Inr (False, PStr [], None)
   \<and> download_audio (fixed_lib (Inl (PyExc True []))) no_repr default_downloader ''u'' ''mp3''
     = Inr (False, PStr [], None)
   \<and> download_video (fixed_lib (Inl (PyExc False []))) default_downloader ''u'' ''best''
     = Inl (PyExc False [])
   \<and> download_audio (fixed_lib (Inl (PyExc False []))) no_repr default_downloader ''u'' ''mp3''
     = Inl (PyExc False [])"
  by (simp add: download_video_def download_audio_def fixed_lib_def)

text \<open>
  C9, as amended. When the metadata query raises an exception that is an instance of
  \<open>Exception\<close>, the class the handler names, on creating the library object or in
  \<open>extract_info\<close>, \<open>get_video_info\<close> returns \<open>None\<close>: the caller gets the not-found
  signal, which carries nothing of the failure, and the exception does not leave the
  function.
\<close>

theorem video_info_failure_not_found:
  assumes "exc_is_Exception e"
    and "lib [(''quiet'', PBool True)] = Inl e
         \<or> (lib [(''quiet'', PBool True)] = Inr ydl \<and> extract_info ydl url False = Inl e)"
  shows "get_video_info lib self url = Inr None"
  using assms by (auto simp add: get_video_info_def)

theorem video_info_failure_not_found_witness:
  "exc_is_Exception (PyExc True ''Video unavailable'')
   \<and> get_video_info (fixed_lib (Inl (PyExc True ''Video unavailable''))) default_downloader ''u''
       = Inr None"
  using video_info_failure_not_found
    [where e = "PyExc True ''Video unavailable''"
       and lib = "fixed_lib (Inl (PyExc True ''Video unavailable''))"
       and ydl = "fixed_ydl (Inl (PyExc True ''Video unavailable''))"
       and url = "''u''" and self = default_downloader]
  by (simp add: fixed_lib_def)

text \<open>
  C9 as stated speaks of any exception. One that is not an instance of \<open>Exception\<close>,
  such as a keyboard interrupt arriving during the query, is not caught and reaches
  the caller.
\<close>

theorem video_info_interrupt_propagates:
  "get_video_info (fixed_lib (Inl (PyExc False []))) default_downloader ''u''
     = Inl (PyExc False [])"
  by (simp add: get_video_info_def fixed_lib_def)

subsection \<open>Playlists\<close>

text \<open>
  C10. \<open>get_playlist_info\<close> returns \<open>None\<close> when the query raises an exception (an
  instance of \<open>Exception\<close>), and also when the query succeeds and what it returns has
  no \<open>entries\<close> key, as for a single item, or is \<open>None\<close>.
\<close>

theorem playlist_info_not_found:
  assumes "lib [(''quiet'', PBool True), (''extract_flat'', PBool True)] = Inr ydl"
    and "(extract_info ydl url False = Inl e \<and> exc_is_Exception e)
         \<or> extract_info ydl url False = Inr None
         \<or> (extract_info ydl url False = Inr (Some d) \<and> map_of d ''entries'' = None)"
  shows "get_playlist_info lib self url = Inr None"
  using assms by (auto simp add: get_playlist_info_def info_contains_def TypeError_def)

theorem playlist_info_not_found_witness:
  "map_of [(''title'', PStr ''One clip''), (''duration'', PInt 125)] ''entries'' = None
   \<and> get_playlist_info (fixed_lib (Inr (Some [(''title'', PStr ''One clip''), (''duration'', PInt 125)])))
        default_downloader ''u'' = Inr None
   \<and> get_playlist_info (fixed_lib (Inl (PyExc True ''Video unavailable''))) default_downloader ''u''
        = Inr None"
  using
    playlist_info_not_found
      [where lib = "fixed_lib (Inr (Some [(''title'', PStr ''One clip''), (''duration'', PInt 125)]))"
         and ydl = "fixed_ydl (Inr (Some [(''title'', PStr ''One clip''), (''duration'', PInt 125)]))"
         and url = "''u''" and d = "[(''title'', PStr ''One clip''), (''duration'', PInt 125)]"
         and self = default_downloader and e = "PyExc True []"]
    playlist_info_not_found
      [where lib = "fixed_lib (Inl (PyExc True ''Video unavailable''))"
         and ydl = "fixed_ydl (Inl (PyExc True ''Video unavailable''))"
         and url = "''u''" and e = "PyExc True ''Video unavailable''"
         and self = default_downloader and d = "[]"]
  by (simp add: fixed_lib_def)

text \<open>
  C6. When the query returns an info dictionary with a list under \<open>entries\<close> whose
  first ten items are dictionaries, as the entries of a flat listing are,
  \<open>get_playlist_info\<close> returns a dictionary whose preview list has the smaller of 10
  and the number of entries as its length, for fewer than, exactly and more than ten
  entries alike, and whose \<open>video_count\<close> is the number of entries. (Whatever the
  library returns, a preview list that is returned has this length: lemma
  \<open>playlist_preview_never_longer\<close>.)
\<close>

theorem playlist_preview_cap:
  assumes "lib [(''quiet'', PBool True), (''extract_flat'', PBool True)] = Inr ydl"
    and "extract_info ydl url False = Inr (Some d)"
    and "map_of d ''entries'' = Some (PList es)"
    and "\<forall>entry \<in> set (take 10 es). \<exists>e. entry = PDict e"
  shows "preview_length (get_playlist_info lib self url) = Some (min 10 (length es))
         \<and> result_field (get_playlist_info lib self url) ''video_count''
             = Some (PInt (int (length es)))"
proof -
  let ?f = "\<lambda>entry. and_then (py_get entry ''title'' PNone) (\<lambda>t.
                     and_then (py_get entry ''duration'' PNone) (\<lambda>d.
                       Inr (PDict [(''title'', t), (''duration'', d)])))"
  have "\<forall>x \<in> set (take 10 es). ?f x = Inr (preview_item x)"
    using assms(4) by (auto simp: preview_item_def)
  then have "comprehension ?f (take 10 es) = Inr (map preview_item (take 10 es))"
    by (rule comprehension_map)
  with assms(1-3) show ?thesis
    by (simp add: get_playlist_info_def info_contains_def info_item_def preview_length_def
        result_field_def min_def)
qed

theorem playlist_preview_cap_witness:
  "preview_length (get_playlist_info
        (fixed_lib (Inr (Some [(''entries'', PList (replicate 12 (PDict [(''title'', PStr ''clip'')])))])))
        default_downloader ''u'') = Some 10
   \<and> preview_length (get_playlist_info
        (fixed_lib (Inr (Some [(''entries'', PList (replicate 10 (PDict [(''title'', PStr ''clip'')])))])))
        default_downloader ''u'') = Some 10
   \<and> preview_length (get_playlist_info
        (fixed_lib (Inr (Some [(''entries'', PList (replicate 3 (PDict [(''title'', PStr ''clip'')])))])))
        default_downloader ''u'') = Some 3"
  using
    playlist_preview_cap
      [where lib = "fixed_lib (Inr (Some [(''entries'', PList (replicate 12 (PDict [(''title'', PStr ''clip'')])))]))"
         and ydl = "fixed_ydl (Inr (Some [(''entries'', PList (replicate 12 (PDict [(''title'', PStr ''clip'')])))]))"
         and url = "''u''" and self = default_downloader
         and d = "[(''entries'', PList (replicate 12 (PDict [(''title'', PStr ''clip'')])))]"
         and es = "replicate 12 (PDict [(''title'', PStr ''clip'')])"]
    playlist_preview_cap
      [where lib = "fixed_lib (Inr (Some [(''entries'', PList (replicate 10 (PDict [(''title'', PStr ''clip'')])))]))"
         and ydl = "fixed_ydl (Inr (Some [(''entries'', PList (replicate 10 (PDict [(''title'', PStr ''clip'')])))]))"
         and url = "''u''" and self = default_downloader
         and d = "[(''entries'', PList (replicate 10 (PDict [(''title'', PStr ''clip'')])))]"
         and es = "replicate 10 (PDict [(''title'', PStr ''clip'')])"]
    playlist_preview_cap
      [where lib = "fixed_lib (Inr (Some [(''entries'', PList (replicate 3 (PDict [(''title'', PStr ''clip'')])))]))"
         and ydl = "fixed_ydl (Inr (Some [(''entries'', PList (replicate 3 (PDict [(''title'', PStr ''clip'')])))]))"
         and url = "''u''" and self = default_downloader
         and d = "[(''entries'', PList (replicate 3 (PDict [(''title'', PStr ''clip'')])))]"
         and es = "replicate 3 (PDict [(''title'', PStr ''clip'')])"]
  by (simp add: fixed_lib_def)

text \<open>
  C7. When \<open>download_playlist\<close> succeeds, that is when the library returns an info
  dictionary with a list under \<open>entries\<close> (the empty list when there is no such key)
  and a string as title (\<open>playlist\<close> when there is no title), the count it returns is
  the length of that list, whatever the entries are: an item that failed and was
  skipped is in the list as \<open>None\<close> and is counted.
\<close>

theorem playlist_count_is_entry_count:
  assumes "lib (download_playlist_opts self download_type quality audio_format) = Inr ydl"
    and "extract_info ydl url True = Inr (Some d)"
    and "(case map_of d ''entries'' of None \<Rightarrow> PList [] | Some v \<Rightarrow> v) = PList es"
    and "(case map_of d ''title'' of None \<Rightarrow> PStr ''playlist'' | Some v \<Rightarrow> v) = PStr t"
  shows "download_playlist lib self url download_type quality audio_format =
           Inr (True, PStr t, int (length es), Some (path_str (joinpath (download_path self) t)))"
  using assms by (simp add: download_playlist_def joinpath_val_def)

theorem playlist_count_is_entry_count_witness:
  "download_playlist
     (fixed_lib (Inr (Some [(''title'', PStr ''Mix''),
                            (''entries'', PList [PDict [(''title'', PStr ''a'')], PNone,
                                                 PDict [(''title'', PStr ''c'')]])])))
     default_downloader ''u'' ''audio'' ''best'' ''mp3''
   = Inr (True, PStr ''Mix'', 3, Some ''downloads/Mix'')"
proof -
  have p: "path_str (joinpath (download_path default_downloader) ''Mix'') = ''downloads/Mix''"
    by code_simp
  show ?thesis
    using playlist_count_is_entry_count
      [where lib = "fixed_lib (Inr (Some [(''title'', PStr ''Mix''),
                            (''entries'', PList [PDict [(''title'', PStr ''a'')], PNone,
                                                 PDict [(''title'', PStr ''c'')]])]))"
         and ydl = "fixed_ydl (Inr (Some [(''title'', PStr ''Mix''),
                            (''entries'', PList [PDict [(''title'', PStr ''a'')], PNone,
                                                 PDict [(''title'', PStr ''c'')]])]))"
         and self = default_downloader and url = "''u''" and download_type = "''audio''"
         and quality = "''best''" and audio_format = "''mp3''" and t = "''Mix''"
         and d = "[(''title'', PStr ''Mix''),
                   (''entries'', PList [PDict [(''title'', PStr ''a'')], PNone,
                                        PDict [(''title'', PStr ''c'')]])]"
         and es = "[PDict [(''title'', PStr ''a'')], PNone, PDict [(''title'', PStr ''c'')]]"]
    by (simp add: fixed_lib_def p)
qed

subsection \<open>The path reported by \<open>download_audio\<close>\<close>

text \<open>
  C8, as amended. Suppose the library accepts the options, \<open>extract_info\<close> returns an
  info dictionary, and the dictionary has a title. Then \<open>download_audio\<close> returns
  success, the title, and as output path the text of \<open>download_path / name\<close>, the
  \<open>pathlib\<close> join of the base directory with the name made of the title (as an
  f-string writes it: a string title is itself), a dot and the requested format. The
  path is computed from these and not read back from the library: it is the same
  whatever \<open>prepare_filename\<close> would report. About where the path lies, this much holds.
  When the title does not begin with a slash, the joined path has the anchor of the
  base directory's path, and its parts begin with the parts of the base directory's
  path; this is a statement about the parts as written, and a title such as
  \<open>../clip\<close> gives \<open>downloads/../clip.mp3\<close>. When neither the title nor the format
  contains a slash, title and format are not both empty, and the base directory's
  path has at least one part, the text of the path is the text of the base
  directory's path, a slash, the title, a dot and the format.
\<close>

theorem audio_output_path:
  assumes "lib (download_audio_opts self format) = Inr ydl"
    and "extract_info ydl url True = Inr (Some d)"
    and "map_of d ''title'' = Some title"
  shows "download_audio lib repr_other self url format =
           Inr (True, title,
                Some (path_str (joinpath (download_path self)
                                  (py_format repr_other title @ ''.'' @ format))))
       \<and> (take 1 (py_format repr_other title) \<noteq> ''/'' \<longrightarrow>
            anchor (joinpath (download_path self) (py_format repr_other title @ ''.'' @ format))
              = anchor (download_path self)
            \<and> take (length (parts (download_path self)))
                 (parts (joinpath (download_path self) (py_format repr_other title @ ''.'' @ format)))
               = parts (download_path self))
       \<and> (CHR ''/'' \<notin> set (py_format repr_other title) \<and> CHR ''/'' \<notin> set format
            \<and> py_format repr_other title @ format \<noteq> []
            \<and> parts (download_path self) \<noteq> [] \<longrightarrow>
            path_str (joinpath (download_path self) (py_format repr_other title @ ''.'' @ format))
              = path_str (download_path self) @ ''/'' @ py_format repr_other title @ ''.'' @ format)"
proof -
  define name where "name = py_format repr_other title"
  let ?name = "name @ ''.'' @ format"
  have a: "download_audio lib repr_other self url format =
           Inr (True, title, Some (path_str (joinpath (download_path self) ?name)))"
    using assms by (simp add: download_audio_def info_item_def name_def)
  have b: "anchor (joinpath (download_path self) ?name) = anchor (download_path self)
           \<and> take (length (parts (download_path self))) (parts (joinpath (download_path self) ?name))
               = parts (download_path self)" if "take 1 name \<noteq> ''/''"
  proof -
    from that have "take 1 ?name \<noteq> ''/''" by (cases name) auto
    then show ?thesis by (simp add: joinpath_relative)
  qed
  have c: "path_str (joinpath (download_path self) ?name)
              = path_str (download_path self) @ ''/'' @ ?name"
    if "CHR ''/'' \<notin> set name" "CHR ''/'' \<notin> set format" "name @ format \<noteq> []"
       "parts (download_path self) \<noteq> []"
  proof -
    from that(1,2) have 1: "CHR ''/'' \<notin> set ?name" by simp
    from that(3) have 2: "?name \<noteq> ''.''" by (cases name) auto
    have 3: "?name \<noteq> []" by simp
    from 1 3 have "take 1 ?name \<noteq> ''/''" by (cases name) auto
    then have "joinpath (download_path self) ?name
                 = \<lparr>anchor = anchor (download_path self), parts = parts (download_path self) @ [?name]\<rparr>"
      using Path_plain_name[OF 1 3 2] by (simp add: joinpath_relative)
    with that(4) show ?thesis
      by (simp add: path_str_def join_with_snoc)
  qed
  from a b c show ?thesis unfolding name_def by blast
qed

theorem audio_output_path_witness:
  "take 1 (py_format no_repr (PStr ''clip'')) \<noteq> ''/''
   \<and> download_audio (fixed_lib (Inr (Some [(''title'', PStr ''clip'')]))) no_repr
        default_downloader ''u'' ''mp3'' = Inr (True, PStr ''clip'', Some ''downloads/clip.mp3'')"
proof -
  have p: "path_str (download_path default_downloader) = ''downloads''"
          "parts (download_path default_downloader) \<noteq> []"
    by code_simp+
  show ?thesis
    using audio_output_path
      [where lib = "fixed_lib (Inr (Some [(''title'', PStr ''clip'')]))"
         and ydl = "fixed_ydl (Inr (Some [(''title'', PStr ''clip'')]))"
         and self = default_downloader and format = "''mp3''" and url = "''u''"
         and d = "[(''title'', PStr ''clip'')]" and title = "PStr ''clip''" and repr_other = no_repr]
    by (simp add: fixed_lib_def p)
qed

text \<open>
  C8 as stated puts the path under the base output directory. For a title that begins
  with a slash the join discards the base directory: with the base directory
  \<open>downloads\<close>, the title \<open>/clip\<close> gives the path \<open>/clip.mp3\<close>. And a title that
  begins with \<open>..\<close> leads out of the base directory: \<open>../clip\<close> gives
  \<open>downloads/../clip.mp3\<close>.
\<close>

theorem audio_output_path_counterexample:
  "download_audio (fixed_lib (Inr (Some [(''title'', PStr ''/clip'')]))) no_repr
     default_downloader ''u'' ''mp3'' = Inr (True, PStr ''/clip'', Some ''/clip.mp3'')
   \<and> download_audio (fixed_lib (Inr (Some [(''title'', PStr ''../clip'')]))) no_repr
       default_downloader ''u'' ''mp3''
     = Inr (True, PStr ''../clip'', Some ''downloads/../clip.mp3'')"
  by code_simp

subsection \<open>The archive\<close>




end
